theory Spec2Isabelle
  imports Main "HOL-Library.Sublist"
begin

section \<open>The WebRTCWebSink element of webrtcwebsink/plugin.py\<close>

text \<open>
  The plugin is a GStreamer bin written in Python. The model keeps the fields of the
  Python object that the code reads and writes, and threads them through every method as
  an explicit state. GStreamer itself is not part of the repository: what each library
  call answers (whether a factory makes an element, whether a request pad is granted,
  whether a link succeeds, which factories the registry lists) is an input of the model,
  collected in the record \<open>gst_env\<close>. Every library call the code makes is appended
  to the field \<open>calls\<close> of the state, in program order. The exceptions modelled are
  the ones the source handles (the \<open>try\<close> around \<open>start_servers\<close> and the
  \<open>try\<close> blocks around the encoder settings), the property writes on the payloader
  that follow them outside any \<open>try\<close>, and the attribute access on \<open>None\<close> after
  a failed \<open>ElementFactory.make\<close>. Every other library call is taken to return.
\<close>

subsection \<open>GStreamer objects\<close>

datatype pad_direction = UNKNOWN | SRC | SINK

text \<open>An element factory of the registry, with the four things \<open>find_best_encoder\<close> reads.
  Caps are kept in their string form, as the source writes them.\<close>

record element_factory =
  get_name :: string
  get_klass :: string
  get_static_pad_templates :: "(pad_direction \<times> string) list"
  get_rank :: int

text \<open>An element: the factory it was made from and the name it was given (\<open>None\<close> when
  GStreamer picks one).\<close>

datatype element = Element (factory_name: string) (element_name: "string option")

datatype state_change =
  NULL_TO_READY | READY_TO_PAUSED | PAUSED_TO_PLAYING
  | PLAYING_TO_PAUSED | PAUSED_TO_READY | READY_TO_NULL

datatype state_change_return = FAILURE | SUCCESS | ASYNC | NO_PREROLL

text \<open>The statements of \<open>start_servers\<close> that can raise.\<close>

datatype start_step =
  Bind_socket | Create_HTTPServer | Start_http_thread
  | Create_SignalingServer | Start_signaling_thread

datatype py_exception = AttributeError | TypeError | Exception_at start_step

datatype 'a outcome = Returned 'a | Raised py_exception

text \<open>The library calls made by the plugin, as they are logged in the state.\<close>

datatype call =
    ElementFactory_make string "string option"
  | Set_property element string
  | Set_state_NULL element
  | Bin_add element
  | Bin_remove element
  | Tee_get_request_pad
  | Tee_release_request_pad
  | Pad_link
  | Pad_unlink
  | Element_link element element
  | Sync_state_with_parent element
  | Pad_add_probe element
  | Socket_bind
  | Http_thread_start
  | Signaling_thread_start
  | Http_server_shutdown
  | Signaling_stop

text \<open>What the library answers during one method call.\<close>

record gst_env =
  registry :: "element_factory list"
    \<comment> \<open>\<open>registry.get_feature_list(Gst.ElementFactory)\<close>, in enumeration order\<close>
  can_intersect :: "string \<Rightarrow> string \<Rightarrow> bool"
    \<comment> \<open>\<open>template_caps.can_intersect(target_caps)\<close>\<close>
  make_ok :: "string \<Rightarrow> bool"
    \<comment> \<open>\<open>Gst.ElementFactory.make(factory, name)\<close> returns an element, not \<open>None\<close>\<close>
  request_pad_ok :: bool
    \<comment> \<open>\<open>self.tee.get_request_pad("src_%u")\<close> returns a pad\<close>
  pad_link_ok :: bool
    \<comment> \<open>\<open>tee_src_pad.link(queue_sink_pad) == Gst.PadLinkReturn.OK\<close>\<close>
  element_link_ok :: "element \<Rightarrow> element \<Rightarrow> bool"
    \<comment> \<open>\<open>a.link(b)\<close> is true\<close>
  static_pad_ok :: "element \<Rightarrow> string \<Rightarrow> bool"
    \<comment> \<open>\<open>e.get_static_pad(name)\<close> returns a pad\<close>
  set_property_ok :: "element \<Rightarrow> string \<Rightarrow> bool"
    \<comment> \<open>a codec-specific \<open>e.set_property(name, value)\<close> returns; false: it raises
       (\<open>TypeError\<close>, the element has no property of that name)\<close>
  start_failure :: "start_step option"
    \<comment> \<open>the statement of \<open>start_servers\<close> that raises, if any\<close>
  parent_change_state :: "state_change \<Rightarrow> state_change_return"
    \<comment> \<open>\<open>Gst.Bin.do_change_state(self, transition)\<close>\<close>

subsection \<open>The state of the element\<close>

text \<open>
  The fields set in \<open>__init__\<close> that the methods below use. A field holding an object
  or \<open>None\<close> is a Boolean (true: an object). \<open>tee_src_pads\<close> is the number of request
  pads of \<open>self.tee\<close> that have been handed out and not released.
\<close>

record webrtcwebsink =
  stun_server :: string
  video_codec :: string
  client_codecs :: "string \<rightharpoonup> string"
  servers_started :: bool
  http_server :: bool
  http_thread :: bool
  signaling :: bool
  signaling_thread :: bool
  tee_src_pads :: nat
  calls :: "call list"

definition init :: webrtcwebsink where
  "init = \<lparr> stun_server = ''stun://stun.l.google.com:19302'', video_codec = ''vp8'',
            client_codecs = Map.empty, servers_started = False,
            http_server = False, http_thread = False,
            signaling = False, signaling_thread = False,
            tee_src_pads = 0, calls = [] \<rparr>"

definition emits :: "call list \<Rightarrow> webrtcwebsink \<Rightarrow> webrtcwebsink" where
  "emits cs s = s\<lparr>calls := calls s @ cs\<rparr>"

subsection \<open>Python helpers\<close>

text \<open>\<open>str.lower()\<close> on ASCII text.\<close>

definition lower_char :: "char \<Rightarrow> char" where
  "lower_char c =
     (let n = (of_char c :: nat) in if 65 \<le> n \<and> n \<le> 90 then char_of (n + 32) else c)"

definition lower :: "string \<Rightarrow> string" where
  "lower s = map lower_char s"

text \<open>
  \<open>xs.sort(key=key, reverse=True)\<close>: Python's sort is stable, and with
  \<open>reverse=True\<close> elements with equal keys keep their original order (the list is
  reversed, sorted stably in ascending order, and reversed again).
\<close>

definition py_sort_reverse :: "('a \<Rightarrow> int) \<Rightarrow> 'a list \<Rightarrow> 'a list" where
  "py_sort_reverse key xs = rev (sort_key key (rev xs))"

text \<open>\<open>f'{client_id}'\<close>.\<close>

definition format_client :: "string option \<Rightarrow> string" where
  "format_client client_id = (case client_id of None \<Rightarrow> ''None'' | Some c \<Rightarrow> c)"

subsection \<open>find_best_encoder\<close>

definition codec_caps :: "string \<rightharpoonup> string" where
  "codec_caps =
     [''vp8'' \<mapsto> ''video/x-vp8'', ''h264'' \<mapsto> ''video/x-h264'',
      ''vp9'' \<mapsto> ''video/x-vp9'', ''av1'' \<mapsto> ''video/x-av1'']"

definition payloader_map :: "string \<rightharpoonup> string" where
  "payloader_map =
     [''vp8'' \<mapsto> ''rtpvp8pay'', ''h264'' \<mapsto> ''rtph264pay'',
      ''vp9'' \<mapsto> ''rtpvp9pay'', ''av1'' \<mapsto> ''rtpav1pay'']"

text \<open>Line 149: the test on the factory's name and class.\<close>

definition is_encoder :: "element_factory \<Rightarrow> bool" where
  "is_encoder factory \<longleftrightarrow>
     (sublist ''encoder'' (get_name factory) \<or> sublist ''enc'' (get_name factory))
     \<and> sublist ''encoder'' (lower (get_klass factory))"

text \<open>Lines 151-156: some source pad template can produce the target format.\<close>

definition can_produce :: "gst_env \<Rightarrow> string \<Rightarrow> element_factory \<Rightarrow> bool" where
  "can_produce env target_caps factory \<longleftrightarrow>
     list_ex (\<lambda>template. fst template = SRC \<and> can_intersect env (snd template) target_caps)
       (get_static_pad_templates factory)"

text \<open>Lines 145-156: the list \<open>encoder_factories\<close> before it is sorted, in the order in
  which the registry enumerates the factories.\<close>

definition matching_factories :: "gst_env \<Rightarrow> string \<Rightarrow> element_factory list" where
  "matching_factories env target_caps =
     filter (\<lambda>factory. is_encoder factory \<and> can_produce env target_caps factory) (registry env)"

text \<open>Line 159: the list after the sort by rank.\<close>

definition encoder_factories :: "gst_env \<Rightarrow> string \<Rightarrow> element_factory list" where
  "encoder_factories env target_caps =
     py_sort_reverse get_rank (matching_factories env target_caps)"

text \<open>The method returns the pair \<open>(encoder_name, payloader)\<close>, each a string or
  \<open>None\<close>. It calls itself with \<open>'vp8'\<close> when a codec of the table other than
  \<open>'vp8'\<close> has no encoder.\<close>

function find_best_encoder :: "gst_env \<Rightarrow> string \<Rightarrow> string option \<times> string option" where
  "find_best_encoder env codec_name =
     (case codec_caps codec_name of
        None \<Rightarrow> (None, None)
      | Some target_caps \<Rightarrow>
          (case encoder_factories env target_caps of
             [] \<Rightarrow>
               if codec_name \<noteq> ''vp8'' then find_best_encoder env ''vp8'' else (None, None)
           | best_encoder # _ \<Rightarrow> (Some (get_name best_encoder), payloader_map codec_name)))"
  by pat_completeness auto
termination
  by (relation "measure (\<lambda>(env, codec_name). if codec_name = ''vp8'' then 0 else 1)") auto

declare find_best_encoder.simps [simp del]

subsection \<open>create_webrtcbin\<close>

text \<open>Lines 224-230: the codec to use, and the entry written to \<open>client_codecs\<close> when
  both a client id and a preference are given.\<close>

definition choose_codec ::
  "string option \<Rightarrow> string option \<Rightarrow> webrtcwebsink \<Rightarrow> string \<times> webrtcwebsink" where
  "choose_codec client_id codec_preference s =
     (case client_id of
        None \<Rightarrow> (video_codec s, s)
      | Some c \<Rightarrow>
          (case codec_preference of
             None \<Rightarrow> (video_codec s, s)
           | Some p \<Rightarrow> (p, s\<lparr>client_codecs := (client_codecs s)(c \<mapsto> p)\<rparr>)))"

text \<open>The test \<open>not encoder_name or not payloader_name\<close> of lines 235 and 238:
  \<open>None\<close> when it is true, the two names otherwise.\<close>

definition names :: "string option \<times> string option \<Rightarrow> (string \<times> string) option" where
  "names r =
     (case r of
        (Some encoder_name, Some payloader_name) \<Rightarrow>
          if encoder_name = [] \<or> payloader_name = [] then None
          else Some (encoder_name, payloader_name)
      | _ \<Rightarrow> None)"

text \<open>Lines 233-238: the encoder for the codec to use, else the encoder for
  \<open>self.video_codec\<close>.\<close>

definition select_encoder :: "gst_env \<Rightarrow> string \<Rightarrow> string \<Rightarrow> (string \<times> string) option" where
  "select_encoder env codec_to_use default_codec =
     (case names (find_best_encoder env codec_to_use) of
        Some found \<Rightarrow> Some found
      | None \<Rightarrow> names (find_best_encoder env default_codec))"

text \<open>\<open>self.tee.get_request_pad\<close> when it returns a pad, and
  \<open>self.tee.release_request_pad\<close>.\<close>

definition acquire_pad :: "webrtcwebsink \<Rightarrow> webrtcwebsink" where
  "acquire_pad s = s\<lparr>tee_src_pads := tee_src_pads s + 1\<rparr>"

definition release_pad :: "webrtcwebsink \<Rightarrow> webrtcwebsink" where
  "release_pad s = emits [Tee_release_request_pad] (s\<lparr>tee_src_pads := tee_src_pads s - 1\<rparr>)"

text \<open>Lines 279-352: the request pad and the four links. The result is true when all
  links are made, and false after the cleanup of the step that failed.\<close>

definition link_branch ::
  "gst_env \<Rightarrow> element \<Rightarrow> element \<Rightarrow> element \<Rightarrow> element \<Rightarrow> webrtcwebsink
     \<Rightarrow> bool \<times> webrtcwebsink" where
  "link_branch env webrtcbin queue encoder payloader s0 =
     (let s1 = emits [Tee_get_request_pad] s0 in
      if \<not> request_pad_ok env then
        (False, emits [Set_state_NULL queue, Set_state_NULL webrtcbin,
                       Bin_remove queue, Bin_remove encoder, Bin_remove payloader,
                       Bin_remove webrtcbin] s1)
      else
        let s2 = emits [Pad_link] (acquire_pad s1) in
        if \<not> pad_link_ok env then
          (False, emits [Set_state_NULL queue, Set_state_NULL webrtcbin,
                         Bin_remove encoder, Bin_remove payloader, Bin_remove queue,
                         Bin_remove webrtcbin]
                    (release_pad (emits [Pad_unlink] s2)))
        else
          let s3 = emits [Element_link queue encoder] s2 in
          if \<not> element_link_ok env queue encoder then
            (False, emits [Set_state_NULL queue, Set_state_NULL encoder,
                           Set_state_NULL payloader, Set_state_NULL webrtcbin,
                           Bin_remove queue, Bin_remove encoder, Bin_remove payloader,
                           Bin_remove webrtcbin]
                      (release_pad (emits [Pad_unlink] s3)))
          else
            let s4 = emits [Element_link encoder payloader] s3 in
            if \<not> element_link_ok env encoder payloader then
              (False, emits [Set_state_NULL queue, Set_state_NULL encoder,
                             Set_state_NULL payloader, Set_state_NULL webrtcbin,
                             Bin_remove queue, Bin_remove encoder, Bin_remove payloader,
                             Bin_remove webrtcbin]
                        (release_pad (emits [Pad_unlink] s4)))
            else
              let s5 = emits [Element_link payloader webrtcbin] s4 in
              if \<not> element_link_ok env payloader webrtcbin then
                (False, emits [Set_state_NULL queue, Set_state_NULL encoder,
                               Set_state_NULL payloader, Set_state_NULL webrtcbin,
                               Bin_remove queue, Bin_remove encoder, Bin_remove payloader,
                               Bin_remove webrtcbin]
                          (release_pad (emits [Pad_unlink] s5)))
              else (True, s5))"

text \<open>A codec-specific property write of lines 368-394: the call is logged, and the
  result tells whether it returned.\<close>

definition write_property ::
  "gst_env \<Rightarrow> element \<Rightarrow> string \<Rightarrow> webrtcwebsink \<Rightarrow> bool \<times> webrtcwebsink" where
  "write_property env e name s = (set_property_ok env e name, emits [Set_property e name] s)"

text \<open>
  Lines 363-392: the settings of the H.264 encoder, chosen by its factory name. The
  outer \<open>try\<close> catches every exception, so the block always completes; a write that
  raises ends the block, except inside the two inner \<open>try\<close> blocks (line 373: the
  handler writes \<open>rc-mode\<close> instead; line 383: the handler only logs).
\<close>

definition configure_h264_encoder ::
  "gst_env \<Rightarrow> element \<Rightarrow> webrtcwebsink \<Rightarrow> webrtcwebsink" where
  "configure_h264_encoder env encoder s0 =
     (let encoder_name = factory_name encoder in
      if sublist ''x264'' encoder_name then
        (let (ok, s1) = write_property env encoder ''key-int-max'' s0 in
         if ok then snd (write_property env encoder ''bitrate'' s1) else s1)
      else if sublist ''nvh264'' encoder_name then
        (let (ok, s1) = write_property env encoder ''preset'' s0 in
         if ok then snd (write_property env encoder ''zerolatency'' s1)
         else (let (ok2, s2) = write_property env encoder ''rc-mode'' s1 in
               if ok2 then snd (write_property env encoder ''zerolatency'' s2) else s2))
      else if sublist ''vaapi'' encoder_name then
        (let (ok, s1) = write_property env encoder ''rate-control'' s0;
             s2 = (if ok then snd (write_property env encoder ''bitrate'' s1) else s1)
         in snd (write_property env encoder ''keyframe-period'' s2))
      else s0)"

text \<open>
  Lines 361-394. The test is on \<open>codec_to_use\<close>, the name chosen at lines 224-230, not
  on the codec of the encoder selected. The two writes on the payloader are outside the
  \<open>try\<close>: one that raises ends the method.
\<close>

definition configure_codec ::
  "gst_env \<Rightarrow> string \<Rightarrow> element \<Rightarrow> element \<Rightarrow> webrtcwebsink
     \<Rightarrow> unit outcome \<times> webrtcwebsink" where
  "configure_codec env codec_to_use encoder payloader s0 =
     (if codec_to_use = ''h264'' then
        (let s1 = configure_h264_encoder env encoder s0;
             (ok1, s2) = write_property env payloader ''config-interval'' s1
         in if \<not> ok1 then (Raised TypeError, s2)
            else (let (ok2, s3) = write_property env payloader ''aggregate-mode'' s2
                  in if \<not> ok2 then (Raised TypeError, s3) else (Returned (), s3)))
      else (Returned (), s0))"

text \<open>Lines 354-403: the state sync, the codec-specific settings and the probe.\<close>

definition finish_branch ::
  "gst_env \<Rightarrow> string \<Rightarrow> element \<Rightarrow> element \<Rightarrow> element \<Rightarrow> element \<Rightarrow> webrtcwebsink
     \<Rightarrow> unit outcome \<times> webrtcwebsink" where
  "finish_branch env codec_to_use webrtcbin queue encoder payloader s0 =
     (let s1 = emits [Sync_state_with_parent queue, Sync_state_with_parent encoder,
                      Sync_state_with_parent payloader, Sync_state_with_parent webrtcbin] s0
      in case configure_codec env codec_to_use encoder payloader s1 of
           (Raised e, s2) \<Rightarrow> (Raised e, s2)
         | (Returned _, s2) \<Rightarrow>
             (Returned (),
              if static_pad_ok env payloader ''src'' then emits [Pad_add_probe payloader] s2
              else s2))"

text \<open>
  The method. It returns the new \<open>webrtcbin\<close>, or \<open>None\<close>. At line 265 the queue is
  configured before the test of line 266: when \<open>ElementFactory.make('queue', None)\<close>
  returns \<open>None\<close> the attribute access raises, and when it returns an element the test
  of line 266 is false.
\<close>

definition create_webrtcbin ::
  "gst_env \<Rightarrow> string option \<Rightarrow> string option \<Rightarrow> webrtcwebsink
     \<Rightarrow> element option outcome \<times> webrtcwebsink" where
  "create_webrtcbin env client_id codec_preference s0 =
     (let s1 = emits [ElementFactory_make ''webrtcbin'' None] s0 in
      if \<not> make_ok env ''webrtcbin'' then (Returned None, s1)
      else
        let webrtcbin = Element ''webrtcbin'' None;
            s2 = emits [Set_property webrtcbin ''stun-server''] s1;
            (codec_to_use, s3) = choose_codec client_id codec_preference s2
        in
        case select_encoder env codec_to_use (video_codec s3) of
          None \<Rightarrow>
            (Returned None, emits [Set_state_NULL webrtcbin, Bin_remove webrtcbin] s3)
        | Some (encoder_name, payloader_name) \<Rightarrow>
            let encoder_id = Some (''encoder-'' @ format_client client_id);
                s4 = emits [ElementFactory_make encoder_name encoder_id] s3
            in
            if \<not> make_ok env encoder_name then
              (Returned None, emits [Set_state_NULL webrtcbin, Bin_remove webrtcbin] s4)
            else
              let encoder = Element encoder_name encoder_id;
                  payloader_id = Some (''payloader-'' @ format_client client_id);
                  s5 = emits [ElementFactory_make payloader_name payloader_id] s4
              in
              if \<not> make_ok env payloader_name then
                (Returned None,
                 emits [Set_state_NULL encoder, Set_state_NULL webrtcbin,
                        Bin_remove webrtcbin] s5)
              else
                let payloader = Element payloader_name payloader_id;
                    s6 = emits [Bin_add webrtcbin, ElementFactory_make ''queue'' None] s5
                in
                if \<not> make_ok env ''queue'' then (Raised AttributeError, s6)
                else
                  let queue = Element ''queue'' None;
                      s7 = emits [Set_property queue ''leaky'', Bin_add queue,
                                  Bin_add encoder, Bin_add payloader] s6
                  in
                  (case link_branch env webrtcbin queue encoder payloader s7 of
                     (False, s8) \<Rightarrow> (Returned None, s8)
                   | (True, s8) \<Rightarrow>
                       (case finish_branch env codec_to_use webrtcbin queue encoder
                               payloader s8 of
                          (Raised e, s9) \<Rightarrow> (Raised e, s9)
                        | (Returned _, s9) \<Rightarrow> (Returned (Some webrtcbin), s9))))"

subsection \<open>The servers and the state changes\<close>

text \<open>
  \<open>start_servers\<close> (lines 466-500). The socket is local; \<open>self.http_server\<close> and
  \<open>self.http_thread\<close> are assigned before the HTTP thread starts, \<open>self.signaling\<close>
  and \<open>self.signaling_thread\<close> before the signaling thread starts. An exception leaves
  the fields assigned so far.
\<close>

definition start_servers :: "gst_env \<Rightarrow> webrtcwebsink \<Rightarrow> unit outcome \<times> webrtcwebsink" where
  "start_servers env s0 =
     (let s1 = emits [Socket_bind] s0 in
      if start_failure env = Some Bind_socket then (Raised (Exception_at Bind_socket), s1)
      else if start_failure env = Some Create_HTTPServer
      then (Raised (Exception_at Create_HTTPServer), s1)
      else
        let s2 = emits [Http_thread_start] (s1\<lparr>http_server := True, http_thread := True\<rparr>) in
        if start_failure env = Some Start_http_thread
        then (Raised (Exception_at Start_http_thread), s2)
        else if start_failure env = Some Create_SignalingServer
        then (Raised (Exception_at Create_SignalingServer), s2)
        else
          let s3 = emits [Signaling_thread_start]
                     (s2\<lparr>signaling := True, signaling_thread := True\<rparr>) in
          if start_failure env = Some Start_signaling_thread
          then (Raised (Exception_at Start_signaling_thread), s3)
          else (Returned (), s3))"

text \<open>
  \<open>stop_servers\<close> (lines 502-512). \<open>SignalingServer.stop\<close> belongs to a module that is
  not among the sources; the signaling server is given the method
  \<open>create_webrtcbin\<close> only, and its \<open>stop\<close> is logged as a call.
\<close>

definition stop_servers :: "webrtcwebsink \<Rightarrow> webrtcwebsink" where
  "stop_servers s0 =
     (let s1 = (if http_server s0
                then (emits [Http_server_shutdown] s0)\<lparr>http_server := False, http_thread := False\<rparr>
                else s0)
      in if signaling s1
         then (emits [Signaling_stop] s1)\<lparr>signaling := False, signaling_thread := False\<rparr>
         else s1)"

text \<open>\<open>do_change_state\<close> (lines 447-464). Every path but the failed start ends in the
  parent's \<open>do_change_state\<close>.\<close>

definition do_change_state ::
  "gst_env \<Rightarrow> state_change \<Rightarrow> webrtcwebsink \<Rightarrow> state_change_return \<times> webrtcwebsink" where
  "do_change_state env transition s =
     (if transition = NULL_TO_READY then
        (if \<not> servers_started s then
           (case start_servers env s of
              (Returned _, s1) \<Rightarrow>
                (parent_change_state env transition, s1\<lparr>servers_started := True\<rparr>)
            | (Raised e, s1) \<Rightarrow> (FAILURE, s1))
         else (parent_change_state env transition, s))
      else if transition = READY_TO_NULL then
        (if servers_started s then
           (parent_change_state env transition, (stop_servers s)\<lparr>servers_started := False\<rparr>)
         else (parent_change_state env transition, s))
      else (parent_change_state env transition, s))"

text \<open>The lifecycle state the specification speaks of, read from the one flag the code
  keeps.\<close>

datatype pipeline_state = Idle | Active

definition pipeline_state :: "webrtcwebsink \<Rightarrow> pipeline_state" where
  "pipeline_state s = (if servers_started s then Active else Idle)"

subsection \<open>Observations on a run\<close>

text \<open>The factories of the \<open>ElementFactory.make\<close> calls of a log, in the order of the
  calls.\<close>

fun made :: "call list \<Rightarrow> string list" where
  "made [] = []"
| "made (ElementFactory_make f n # cs) = f # made cs"
| "made (_ # cs) = made cs"

text \<open>The pad request and the four links of \<open>link_branch\<close> all succeed.\<close>

definition links_ok :: "gst_env \<Rightarrow> element \<Rightarrow> element \<Rightarrow> element \<Rightarrow> element \<Rightarrow> bool" where
  "links_ok env webrtcbin queue encoder payloader \<longleftrightarrow>
     request_pad_ok env \<and> pad_link_ok env \<and> element_link_ok env queue encoder
     \<and> element_link_ok env encoder payloader \<and> element_link_ok env payloader webrtcbin"

text \<open>The codec-specific property writes on the payloader (lines 393-394) return.\<close>

definition tuning_ok :: "gst_env \<Rightarrow> string \<Rightarrow> element \<Rightarrow> bool" where
  "tuning_ok env codec_to_use payloader \<longleftrightarrow>
     codec_to_use \<noteq> ''h264''
     \<or> (set_property_ok env payloader ''config-interval''
        \<and> set_property_ok env payloader ''aggregate-mode'')"

text \<open>
  Two summaries of \<open>create_webrtcbin\<close>, each proved equal to what the method computes
  (lemmas \<open>create_webrtcbin_result\<close> and \<open>create_webrtcbin_made\<close>): its result, and the
  factories it asks for elements, both as functions of the library's answers, of the
  codec to use and of the encoder selected.
\<close>

definition build_result ::
  "gst_env \<Rightarrow> string option \<Rightarrow> string \<Rightarrow> (string \<times> string) option
     \<Rightarrow> element option outcome" where
  "build_result env client_id codec_to_use selected =
     (if \<not> make_ok env ''webrtcbin'' then Returned None
      else case selected of
        None \<Rightarrow> Returned None
      | Some (e, p) \<Rightarrow>
          if \<not> make_ok env e \<or> \<not> make_ok env p then Returned None
          else if \<not> make_ok env ''queue'' then Raised AttributeError
          else if \<not> links_ok env (Element ''webrtcbin'' None) (Element ''queue'' None)
                    (Element e (Some (''encoder-'' @ format_client client_id)))
                    (Element p (Some (''payloader-'' @ format_client client_id)))
          then Returned None
          else if tuning_ok env codec_to_use
                    (Element p (Some (''payloader-'' @ format_client client_id)))
          then Returned (Some (Element ''webrtcbin'' None))
          else Raised TypeError)"

definition instantiated :: "gst_env \<Rightarrow> (string \<times> string) option \<Rightarrow> string list" where
  "instantiated env selected =
     (if \<not> make_ok env ''webrtcbin'' then [''webrtcbin'']
      else case selected of
        None \<Rightarrow> [''webrtcbin'']
      | Some (e, p) \<Rightarrow>
          if \<not> make_ok env e then [''webrtcbin'', e]
          else if \<not> make_ok env p then [''webrtcbin'', e, p]
          else [''webrtcbin'', e, p, ''queue''])"

subsection \<open>The names of the children of the bin\<close>

text \<open>How often a log adds to the bin, and removes from it, an element of a given name.\<close>

fun adds_of :: "string \<Rightarrow> call list \<Rightarrow> nat" where
  "adds_of n [] = 0"
| "adds_of n (Bin_add e # cs) = (if element_name e = Some n then 1 else 0) + adds_of n cs"
| "adds_of n (_ # cs) = adds_of n cs"

fun removes_of :: "string \<Rightarrow> call list \<Rightarrow> nat" where
  "removes_of n [] = 0"
| "removes_of n (Bin_remove e # cs) = (if element_name e = Some n then 1 else 0) + removes_of n cs"
| "removes_of n (_ # cs) = removes_of n cs"



subsection \<open>Example inputs\<close>

definition vp8enc :: element_factory where
  "vp8enc = \<lparr> get_name = ''vp8enc'', get_klass = ''Codec/Encoder/Video'',
              get_static_pad_templates = [(SINK, ''video/x-raw''), (SRC, ''video/x-vp8'')],
              get_rank = 256 \<rparr>"

definition vaapivp8enc :: element_factory where
  "vaapivp8enc = \<lparr> get_name = ''vaapivp8enc'', get_klass = ''Codec/Encoder/Video/Hardware'',
              get_static_pad_templates = [(SINK, ''video/x-raw''), (SRC, ''video/x-vp8'')],
              get_rank = 256 \<rparr>"

definition vp9enc :: element_factory where
  "vp9enc = \<lparr> get_name = ''vp9enc'', get_klass = ''Codec/Encoder/Video'',
              get_static_pad_templates = [(SINK, ''video/x-raw''), (SRC, ''video/x-vp9'')],
              get_rank = 256 \<rparr>"

definition theoraenc :: element_factory where
  "theoraenc = \<lparr> get_name = ''theoraenc'', get_klass = ''Codec/Encoder/Video'',
              get_static_pad_templates = [(SINK, ''video/x-raw''), (SRC, ''video/x-theora'')],
              get_rank = 512 \<rparr>"

definition vp8dec :: element_factory where
  "vp8dec = \<lparr> get_name = ''vp8dec'', get_klass = ''Codec/Decoder/Video'',
              get_static_pad_templates = [(SINK, ''video/x-vp8''), (SRC, ''video/x-raw'')],
              get_rank = 256 \<rparr>"

text \<open>An environment in which every library call succeeds.\<close>

definition all_ok :: "element_factory list \<Rightarrow> gst_env" where
  "all_ok factories =
     \<lparr> registry = factories, can_intersect = (\<lambda>a b. a = b), make_ok = (\<lambda>_. True),
       request_pad_ok = True, pad_link_ok = True, element_link_ok = (\<lambda>_ _. True),
       static_pad_ok = (\<lambda>_ _. True), set_property_ok = (\<lambda>_ _. True),
       start_failure = None,
       parent_change_state = (\<lambda>_. SUCCESS) \<rparr>"


section \<open>Properties of find_best_encoder\<close>

lemma hd_filter_index:
  assumes "filter P xs = b # rest"
  shows "\<exists>i<length xs. xs ! i = b \<and> (\<forall>j<i. \<not> P (xs ! j))"
proof -
  from assms obtain us vs where xs: "xs = us @ b # vs" and us: "\<forall>u\<in>set us. \<not> P u"
    by (auto simp: filter_eq_Cons_iff)
  have "length us < length xs" using xs by simp
  moreover have "xs ! length us = b" using xs by simp
  moreover have "\<forall>j<length us. \<not> P (xs ! j)" using xs us by (simp add: nth_append)
  ultimately show ?thesis by blast
qed

text \<open>The head of the list sorted in place is the first element of highest key of the
  list before the sort.\<close>

lemma py_sort_reverse_hd:
  assumes "xs \<noteq> []"
  shows "\<exists>i<length xs. hd (py_sort_reverse f xs) = xs ! i
           \<and> (\<forall>j<length xs. f (xs ! j) \<le> f (xs ! i))
           \<and> (\<forall>j<i. f (xs ! j) < f (xs ! i))"
proof -
  define ys where "ys = sort_key f (rev xs)"
  define b where "b = last ys"
  have ne: "ys \<noteq> []" using assms by (auto simp: ys_def dest: arg_cong[where f=length])
  have setys: "set ys = set xs" by (simp add: ys_def)
  have srt: "sorted (map f ys)" by (simp add: ys_def)
  have hdb: "hd (py_sort_reverse f xs) = b"
    using ne by (simp add: py_sort_reverse_def ys_def[symmetric] b_def hd_rev)
  have bmax: "\<forall>y\<in>set ys. f y \<le> f b"
  proof
    fix y assume "y \<in> set ys"
    then obtain k where k: "k < length ys" "ys ! k = y" by (auto simp: in_set_conv_nth)
    have "map f ys ! k \<le> map f ys ! (length ys - 1)"
      using srt k ne by (intro sorted_nth_mono) auto
    then show "f y \<le> f b" using k ne by (simp add: b_def last_conv_nth)
  qed
  have "filter (\<lambda>y. f y = f b) ys = filter (\<lambda>y. f y = f b) (rev xs)"
    unfolding ys_def by (rule sort_key_stable)
  then have "rev (filter (\<lambda>y. f y = f b) ys) = rev (filter (\<lambda>y. f y = f b) (rev xs))"
    by simp
  then have flt: "filter (\<lambda>y. f y = f b) (rev ys) = filter (\<lambda>y. f y = f b) xs"
    unfolding rev_filter by simp
  have "rev ys = b # tl (rev ys)" using ne by (simp add: b_def hd_rev[symmetric])
  then have "filter (\<lambda>y. f y = f b) (rev ys) = b # filter (\<lambda>y. f y = f b) (tl (rev ys))"
    by (metis (mono_tags, lifting) filter.simps(2))
  with flt have "filter (\<lambda>y. f y = f b) xs = b # filter (\<lambda>y. f y = f b) (tl (rev ys))"
    by simp
  from hd_filter_index[OF this] obtain i where i: "i < length xs" "xs ! i = b"
    "\<forall>j<i. f (xs ! j) \<noteq> f b" by blast
  have le: "\<forall>j<length xs. f (xs ! j) \<le> f b" using bmax setys by simp
  have "\<forall>j<i. f (xs ! j) < f b"
  proof (intro allI impI)
    fix j assume "j < i"
    then have "f (xs ! j) \<noteq> f b" "f (xs ! j) \<le> f b" using i le by auto
    then show "f (xs ! j) < f b" by simp
  qed
  with i le hdb show ?thesis by auto
qed

lemma py_sort_reverse_Nil_iff: "py_sort_reverse f xs = [] \<longleftrightarrow> xs = []"
  by (auto simp: py_sort_reverse_def dest: arg_cong[where f=length])

text \<open>
  Claim C6. For a codec of the table with at least one matching encoder,
  \<open>find_best_encoder\<close> returns the matching encoder of highest rank, and among the
  encoders of that rank the one the registry enumerates first: with \<open>i\<close> the position
  of the chosen factory among the matching ones, no matching factory has a higher rank
  and every matching factory before position \<open>i\<close> has a strictly lower rank. The
  payloader is the one the table gives for the codec.
\<close>

theorem find_best_encoder_highest_rank_first_registered:
  assumes "codec_caps codec_name = Some target_caps"
    and "matching_factories env target_caps \<noteq> []"
  shows "\<exists>i<length (matching_factories env target_caps).
           find_best_encoder env codec_name =
             (Some (get_name (matching_factories env target_caps ! i)), payloader_map codec_name)
           \<and> (\<forall>j<length (matching_factories env target_caps).
                 get_rank (matching_factories env target_caps ! j)
                   \<le> get_rank (matching_factories env target_caps ! i))
           \<and> (\<forall>j<i. get_rank (matching_factories env target_caps ! j)
                   < get_rank (matching_factories env target_caps ! i))"
proof -
  let ?m = "matching_factories env target_caps"
  from py_sort_reverse_hd[OF assms(2), of get_rank] obtain i where i: "i < length ?m"
    "hd (py_sort_reverse get_rank ?m) = ?m ! i"
    "\<forall>j<length ?m. get_rank (?m ! j) \<le> get_rank (?m ! i)"
    "\<forall>j<i. get_rank (?m ! j) < get_rank (?m ! i)" by blast
  have "encoder_factories env target_caps \<noteq> []"
    using assms(2) by (simp add: encoder_factories_def py_sort_reverse_Nil_iff)
  then obtain best rest where br: "encoder_factories env target_caps = best # rest"
    by (cases "encoder_factories env target_caps") auto
  then have "best = ?m ! i" using i(2) by (simp add: encoder_factories_def)
  with br assms(1) have "find_best_encoder env codec_name
      = (Some (get_name (?m ! i)), payloader_map codec_name)"
    by (simp add: find_best_encoder.simps)
  with i show ?thesis by blast
qed

text \<open>Two encoders for VP8 of equal rank: the one enumerated first is chosen.\<close>

theorem find_best_encoder_highest_rank_first_registered_witness:
  "codec_caps ''vp8'' = Some ''video/x-vp8''
   \<and> matching_factories (all_ok [vp8dec, theoraenc, vp8enc, vaapivp8enc]) ''video/x-vp8''
       = [vp8enc, vaapivp8enc]
   \<and> get_rank vp8enc = get_rank vaapivp8enc
   \<and> find_best_encoder (all_ok [vp8dec, theoraenc, vp8enc, vaapivp8enc]) ''vp8''
       = (Some ''vp8enc'', Some ''rtpvp8pay'')
   \<and> (\<exists>i<length (matching_factories (all_ok [vp8dec, theoraenc, vp8enc, vaapivp8enc]) ''video/x-vp8'').
         find_best_encoder (all_ok [vp8dec, theoraenc, vp8enc, vaapivp8enc]) ''vp8'' =
           (Some (get_name (matching_factories (all_ok [vp8dec, theoraenc, vp8enc, vaapivp8enc]) ''video/x-vp8'' ! i)),
            payloader_map ''vp8'')
         \<and> (\<forall>j<i. get_rank (matching_factories (all_ok [vp8dec, theoraenc, vp8enc, vaapivp8enc]) ''video/x-vp8'' ! j)
               < get_rank (matching_factories (all_ok [vp8dec, theoraenc, vp8enc, vaapivp8enc]) ''video/x-vp8'' ! i)))"
proof -
  let ?E = "all_ok [vp8dec, theoraenc, vp8enc, vaapivp8enc]"
  have h1: "codec_caps ''vp8'' = Some ''video/x-vp8''" by (simp add: codec_caps_def)
  have h2: "matching_factories ?E ''video/x-vp8'' = [vp8enc, vaapivp8enc]" by code_simp
  then have h3: "matching_factories ?E ''video/x-vp8'' \<noteq> []" by simp
  have h4: "get_rank vp8enc = get_rank vaapivp8enc" by (simp add: vp8enc_def vaapivp8enc_def)
  have h5: "find_best_encoder ?E ''vp8'' = (Some ''vp8enc'', Some ''rtpvp8pay'')" by code_simp
  from find_best_encoder_highest_rank_first_registered[OF h1 h3] h1 h2 h4 h5
  show ?thesis by blast
qed

section \<open>What each step leaves unchanged\<close>

lemma made_append: "made (xs @ ys) = made xs @ made ys"
  by (induction xs rule: made.induct) simp_all

lemma emits_fields [simp]:
  "stun_server (emits cs s) = stun_server s"
  "video_codec (emits cs s) = video_codec s"
  "client_codecs (emits cs s) = client_codecs s"
  "servers_started (emits cs s) = servers_started s"
  "http_server (emits cs s) = http_server s"
  "http_thread (emits cs s) = http_thread s"
  "signaling (emits cs s) = signaling s"
  "signaling_thread (emits cs s) = signaling_thread s"
  "tee_src_pads (emits cs s) = tee_src_pads s"
  "calls (emits cs s) = calls s @ cs"
  by (simp_all add: emits_def)

lemma acquire_release_fields [simp]:
  "client_codecs (acquire_pad s) = client_codecs s"
  "video_codec (acquire_pad s) = video_codec s"
  "servers_started (acquire_pad s) = servers_started s"
  "servers_started (release_pad s) = servers_started s"
  "video_codec (release_pad s) = video_codec s"
  "tee_src_pads (acquire_pad s) = tee_src_pads s + 1"
  "calls (acquire_pad s) = calls s"
  "client_codecs (release_pad s) = client_codecs s"
  "tee_src_pads (release_pad s) = tee_src_pads s - 1"
  "calls (release_pad s) = calls s @ [Tee_release_request_pad]"
  by (simp_all add: acquire_pad_def release_pad_def)

lemma choose_codec_fields [simp]:
  "tee_src_pads (snd (choose_codec c p s)) = tee_src_pads s"
  "video_codec (snd (choose_codec c p s)) = video_codec s"
  "servers_started (snd (choose_codec c p s)) = servers_started s"
  "calls (snd (choose_codec c p s)) = calls s"
  "fst (choose_codec c p (emits cs s)) = fst (choose_codec c p s)"
  by (simp_all add: choose_codec_def split: option.splits)

lemma choose_codec_client_codecs:
  "client_codecs (snd (choose_codec c p s)) =
     (case c of None \<Rightarrow> client_codecs s
      | Some c' \<Rightarrow> (case p of None \<Rightarrow> client_codecs s | Some p' \<Rightarrow> (client_codecs s)(c' \<mapsto> p')))"
  by (simp add: choose_codec_def split: option.splits)

lemma choose_codec_emits [simp]:
  "client_codecs (snd (choose_codec c p (emits cs s))) = client_codecs (snd (choose_codec c p s))"
  by (simp add: choose_codec_client_codecs split: option.splits)

lemma link_branch_fst: "fst (link_branch env w q e p s) = links_ok env w q e p"
  by (simp add: link_branch_def links_ok_def Let_def)

lemma link_branch_tee:
  "tee_src_pads (snd (link_branch env w q e p s)) =
     (if links_ok env w q e p then tee_src_pads s + 1 else tee_src_pads s)"
  by (simp add: link_branch_def links_ok_def Let_def)

lemma link_branch_client_codecs [simp]:
  "client_codecs (snd (link_branch env w q e p s)) = client_codecs s"
  by (simp add: link_branch_def Let_def)

lemma link_branch_video_codec [simp]:
  "video_codec (snd (link_branch env w q e p s)) = video_codec s"
  by (simp add: link_branch_def Let_def)

lemma link_branch_servers_started [simp]:
  "servers_started (snd (link_branch env w q e p s)) = servers_started s"
  by (simp add: link_branch_def Let_def)

lemma link_branch_made [simp]:
  "made (calls (snd (link_branch env w q e p s))) = made (calls s)"
  by (simp add: link_branch_def Let_def made_append)

lemma write_property_fields [simp]:
  "fst (write_property env e n s) = set_property_ok env e n"
  "tee_src_pads (snd (write_property env e n s)) = tee_src_pads s"
  "client_codecs (snd (write_property env e n s)) = client_codecs s"
  "video_codec (snd (write_property env e n s)) = video_codec s"
  "servers_started (snd (write_property env e n s)) = servers_started s"
  "made (calls (snd (write_property env e n s))) = made (calls s)"
  by (simp_all add: write_property_def made_append)

lemma configure_h264_encoder_fields [simp]:
  "tee_src_pads (configure_h264_encoder env e s) = tee_src_pads s"
  "client_codecs (configure_h264_encoder env e s) = client_codecs s"
  "video_codec (configure_h264_encoder env e s) = video_codec s"
  "servers_started (configure_h264_encoder env e s) = servers_started s"
  "made (calls (configure_h264_encoder env e s)) = made (calls s)"
  by (simp_all add: configure_h264_encoder_def Let_def case_prod_unfold)

lemma configure_codec_fst:
  "fst (configure_codec env c e p s) = (if tuning_ok env c p then Returned () else Raised TypeError)"
  by (simp add: configure_codec_def tuning_ok_def Let_def case_prod_unfold)

lemma configure_codec_fields [simp]:
  "tee_src_pads (snd (configure_codec env c e p s)) = tee_src_pads s"
  "client_codecs (snd (configure_codec env c e p s)) = client_codecs s"
  "video_codec (snd (configure_codec env c e p s)) = video_codec s"
  "servers_started (snd (configure_codec env c e p s)) = servers_started s"
  "made (calls (snd (configure_codec env c e p s))) = made (calls s)"
  by (simp_all add: configure_codec_def Let_def case_prod_unfold)

lemma finish_branch_fst:
  "fst (finish_branch env c w q e p s) = (if tuning_ok env c p then Returned () else Raised TypeError)"
  by (simp add: finish_branch_def Let_def case_prod_unfold configure_codec_fst
      split: outcome.splits)

lemma finish_branch_fields [simp]:
  "tee_src_pads (snd (finish_branch env c w q e p s)) = tee_src_pads s"
  "client_codecs (snd (finish_branch env c w q e p s)) = client_codecs s"
  "video_codec (snd (finish_branch env c w q e p s)) = video_codec s"
  "servers_started (snd (finish_branch env c w q e p s)) = servers_started s"
  "made (calls (snd (finish_branch env c w q e p s))) = made (calls s)"
  by (simp_all add: finish_branch_def Let_def case_prod_unfold made_append
      split: outcome.splits)

subsection \<open>Additions to the bin and removals from it\<close>

lemma adds_of_append: "adds_of n (xs @ ys) = adds_of n xs + adds_of n ys"
  by (induction n xs rule: adds_of.induct) simp_all

lemma removes_of_append: "removes_of n (xs @ ys) = removes_of n xs + removes_of n ys"
  by (induction n xs rule: removes_of.induct) simp_all

lemma emits_adds [simp]:
  "adds_of n (calls (emits cs s)) = adds_of n (calls s) + adds_of n cs"
  "removes_of n (calls (emits cs s)) = removes_of n (calls s) + removes_of n cs"
  by (simp_all add: adds_of_append removes_of_append)

lemma link_branch_adds:
  "adds_of n (calls (snd (link_branch env w q e p s))) = adds_of n (calls s)"
  by (simp add: link_branch_def Let_def adds_of_append)

lemma link_branch_removes:
  "removes_of n (calls (snd (link_branch env w q e p s))) =
     removes_of n (calls s) +
       (if links_ok env w q e p then 0
        else removes_of n [Bin_remove q, Bin_remove e, Bin_remove p, Bin_remove w])"
  by (simp add: link_branch_def links_ok_def Let_def removes_of_append)

lemma choose_codec_calls [simp]:
  "adds_of n (calls (snd (choose_codec c p s))) = adds_of n (calls s)"
  "removes_of n (calls (snd (choose_codec c p s))) = removes_of n (calls s)"
  by simp_all

lemma write_property_names [simp]:
  "adds_of n (calls (snd (write_property env e m s))) = adds_of n (calls s)"
  "removes_of n (calls (snd (write_property env e m s))) = removes_of n (calls s)"
  by (simp_all add: write_property_def adds_of_append removes_of_append)

lemma configure_h264_encoder_names [simp]:
  "adds_of n (calls (configure_h264_encoder env e s)) = adds_of n (calls s)"
  "removes_of n (calls (configure_h264_encoder env e s)) = removes_of n (calls s)"
  by (simp_all add: configure_h264_encoder_def Let_def case_prod_unfold)

lemma configure_codec_names [simp]:
  "adds_of n (calls (snd (configure_codec env c e p s))) = adds_of n (calls s)"
  "removes_of n (calls (snd (configure_codec env c e p s))) = removes_of n (calls s)"
  by (simp_all add: configure_codec_def Let_def case_prod_unfold)

lemma finish_branch_names [simp]:
  "adds_of n (calls (snd (finish_branch env c w q e p s))) = adds_of n (calls s)"
  "removes_of n (calls (snd (finish_branch env c w q e p s))) = removes_of n (calls s)"
  by (simp_all add: finish_branch_def Let_def case_prod_unfold adds_of_append removes_of_append
      split: outcome.splits)

section \<open>create_webrtcbin as a function of the library's answers\<close>

lemma create_webrtcbin_result:
  "fst (create_webrtcbin env client_id codec_preference s) =
     build_result env client_id (fst (choose_codec client_id codec_preference s))
       (select_encoder env (fst (choose_codec client_id codec_preference s)) (video_codec s))"
  by (simp add: create_webrtcbin_def build_result_def Let_def link_branch_fst finish_branch_fst
        case_prod_unfold
      split: option.splits bool.splits outcome.splits)

lemma create_webrtcbin_tee:
  "tee_src_pads (snd (create_webrtcbin env client_id codec_preference s)) =
     (if fst (create_webrtcbin env client_id codec_preference s)
           = Returned (Some (Element ''webrtcbin'' None))
         \<or> fst (create_webrtcbin env client_id codec_preference s) = Raised TypeError
      then tee_src_pads s + 1 else tee_src_pads s)"
  unfolding create_webrtcbin_result
  by (simp add: create_webrtcbin_def build_result_def Let_def link_branch_fst link_branch_tee
        finish_branch_fst case_prod_unfold
      split: option.splits bool.splits outcome.splits)

lemma create_webrtcbin_client_codecs:
  "client_codecs (snd (create_webrtcbin env client_id codec_preference s)) =
     (if make_ok env ''webrtcbin''
      then client_codecs (snd (choose_codec client_id codec_preference s))
      else client_codecs s)"
  by (simp add: create_webrtcbin_def Let_def case_prod_unfold
      split: option.splits bool.splits outcome.splits)

lemma create_webrtcbin_made:
  "made (calls (snd (create_webrtcbin env client_id codec_preference s))) =
     made (calls s) @ instantiated env
       (select_encoder env (fst (choose_codec client_id codec_preference s)) (video_codec s))"
  by (simp add: create_webrtcbin_def instantiated_def Let_def case_prod_unfold made_append
      split: option.splits bool.splits outcome.splits)

lemma create_webrtcbin_video_codec [simp]:
  "video_codec (snd (create_webrtcbin env client_id codec_preference s)) = video_codec s"
  by (simp add: create_webrtcbin_def Let_def case_prod_unfold
      split: option.splits bool.splits outcome.splits)

lemma create_webrtcbin_servers_started [simp]:
  "servers_started (snd (create_webrtcbin env client_id codec_preference s)) = servers_started s"
  by (simp add: create_webrtcbin_def Let_def case_prod_unfold
      split: option.splits bool.splits outcome.splits)



text \<open>A build that returns an element has added an encoder of the client's name to
  the bin and removed nothing.\<close>

lemma create_webrtcbin_success_names:
  assumes "fst (create_webrtcbin env client_id codec_preference s)
             = Returned (Some (Element ''webrtcbin'' None))"
  shows "adds_of (''encoder-'' @ format_client client_id)
            (calls (snd (create_webrtcbin env client_id codec_preference s)))
          = adds_of (''encoder-'' @ format_client client_id) (calls s) + 1"
    and "removes_of n (calls (snd (create_webrtcbin env client_id codec_preference s)))
          = removes_of n (calls s)"
  using assms
  by (auto simp add: create_webrtcbin_def Let_def case_prod_unfold link_branch_fst
        finish_branch_fst link_branch_adds link_branch_removes adds_of_append removes_of_append
      split: option.splits bool.splits if_splits)

lemma names_None [simp]: "names (None, None) = None"
  by (simp add: names_def)

lemma find_best_encoder_unknown:
  "codec_caps codec_name = None \<Longrightarrow> find_best_encoder env codec_name = (None, None)"
  by (simp add: find_best_encoder.simps)

lemma find_best_encoder_no_match:
  assumes "codec_caps codec_name = Some target_caps"
    and "matching_factories env target_caps = []"
  shows "find_best_encoder env codec_name =
           (if codec_name = ''vp8'' then (None, None) else find_best_encoder env ''vp8'')"
proof -
  have "encoder_factories env target_caps = []"
    using assms(2) by (simp add: encoder_factories_def py_sort_reverse_Nil_iff)
  with assms(1) show ?thesis
    by (subst find_best_encoder.simps) simp
qed

lemma select_encoder_unknown:
  "codec_caps codec_name = None \<Longrightarrow>
     select_encoder env codec_name default_codec = names (find_best_encoder env default_codec)"
  by (simp add: select_encoder_def find_best_encoder_unknown)

lemma select_encoder_same:
  "select_encoder env default_codec default_codec = names (find_best_encoder env default_codec)"
  by (simp add: select_encoder_def split: option.splits)

lemma choose_codec_fst:
  "fst (choose_codec client_id codec_preference s) =
     (case client_id of None \<Rightarrow> video_codec s
      | Some c \<Rightarrow> (case codec_preference of None \<Rightarrow> video_codec s | Some p \<Rightarrow> p))"
  by (simp add: choose_codec_def split: option.splits)

lemma emits_emits [simp]: "emits cs (emits bs s) = emits (bs @ cs) s"
  by (simp add: emits_def)

lemma choose_codec_emits_commute:
  "choose_codec c p (emits cs s) = (fst (choose_codec c p s), emits cs (snd (choose_codec c p s)))"
  by (simp add: choose_codec_def emits_def split: option.splits)

subsection \<open>The example inputs\<close>

lemma all_ok_fields [simp]:
  "make_ok (all_ok fs) n" "request_pad_ok (all_ok fs)" "pad_link_ok (all_ok fs)"
  "element_link_ok (all_ok fs) a b" "static_pad_ok (all_ok fs) a n"
  "set_property_ok (all_ok fs) a n"
  "start_failure (all_ok fs) = None" "parent_change_state (all_ok fs) t = SUCCESS"
  "registry (all_ok fs) = fs"
  by (simp_all add: all_ok_def)

lemma tuning_ok_all_ok [simp]: "tuning_ok (all_ok fs) c p"
  by (simp add: tuning_ok_def)

lemma init_fields [simp]:
  "video_codec init = ''vp8''" "client_codecs init = Map.empty" "tee_src_pads init = 0"
  "calls init = []" "\<not> servers_started init" "\<not> http_server init" "\<not> signaling init"
  by (simp_all add: init_def)

lemma unknown_codec: "codec_caps ''unknown-codec'' = None"
  by (simp add: codec_caps_def)

text \<open>With no encoder in the registry nothing is selected, whatever the codec asked for.\<close>

lemma select_nothing: "select_encoder (all_ok []) codec_name ''vp8'' = None"
proof -
  have m: "matching_factories (all_ok []) t = []" for t
    by (simp add: matching_factories_def)
  have v: "find_best_encoder (all_ok []) ''vp8'' = (None, None)"
    using find_best_encoder_no_match[of "''vp8''" _ "all_ok []"] m
    by (simp add: codec_caps_def)
  have "find_best_encoder (all_ok []) codec_name = (None, None)"
  proof (cases "codec_caps codec_name")
    case None
    then show ?thesis by (rule find_best_encoder_unknown)
  next
    case (Some t)
    from find_best_encoder_no_match[OF Some m] v show ?thesis by simp
  qed
  with v show ?thesis by (simp add: select_encoder_def)
qed

lemma select_vp8_only:
  "select_encoder (all_ok [vp8enc]) ''vp8'' ''vp8'' = Some (''vp8enc'', ''rtpvp8pay'')"
  by code_simp

lemma select_two_encoders:
  "matching_factories (all_ok [vp8enc, vp9enc]) ''video/x-h264'' = []"
  "find_best_encoder (all_ok [vp8enc, vp9enc]) ''vp9'' = (Some ''vp9enc'', Some ''rtpvp9pay'')"
  "select_encoder (all_ok [vp8enc, vp9enc]) ''h264'' ''vp9'' = Some (''vp8enc'', ''rtpvp8pay'')"
  by code_simp+

lemma select_no_payloader:
  "select_encoder ((all_ok [vp8enc])\<lparr>make_ok := (\<lambda>n. n \<noteq> ''rtpvp8pay'')\<rparr>) ''vp8'' ''vp8''
     = Some (''vp8enc'', ''rtpvp8pay'')"
  by code_simp

lemma select_no_queue:
  "select_encoder ((all_ok [vp8enc])\<lparr>make_ok := (\<lambda>n. n \<noteq> ''queue'')\<rparr>) ''vp8'' ''vp8''
     = Some (''vp8enc'', ''rtpvp8pay'')"
  by code_simp

lemma select_no_pad_link:
  "select_encoder ((all_ok [vp8enc])\<lparr>pad_link_ok := False\<rparr>) ''vp8'' ''vp8''
     = Some (''vp8enc'', ''rtpvp8pay'')"
  by code_simp

lemma refused_pad_link_calls:
  "calls (snd (create_webrtcbin ((all_ok [vp8enc])\<lparr>pad_link_ok := False\<rparr>)
          (Some ''A'') (Some ''vp8'') init)) =
     [ElementFactory_make ''webrtcbin'' None,
      Set_property (Element ''webrtcbin'' None) ''stun-server'',
      ElementFactory_make ''vp8enc'' (Some ''encoder-A''),
      ElementFactory_make ''rtpvp8pay'' (Some ''payloader-A''),
      Bin_add (Element ''webrtcbin'' None), ElementFactory_make ''queue'' None,
      Set_property (Element ''queue'' None) ''leaky'',
      Bin_add (Element ''queue'' None),
      Bin_add (Element ''vp8enc'' (Some ''encoder-A'')),
      Bin_add (Element ''rtpvp8pay'' (Some ''payloader-A'')),
      Tee_get_request_pad, Pad_link, Pad_unlink, Tee_release_request_pad,
      Set_state_NULL (Element ''queue'' None), Set_state_NULL (Element ''webrtcbin'' None),
      Bin_remove (Element ''vp8enc'' (Some ''encoder-A'')),
      Bin_remove (Element ''rtpvp8pay'' (Some ''payloader-A'')),
      Bin_remove (Element ''queue'' None), Bin_remove (Element ''webrtcbin'' None)]"
  by code_simp



lemma h264_default_on_vp8:
  "select_encoder ((all_ok [vp8enc])\<lparr>set_property_ok := (\<lambda>e n. factory_name e \<noteq> ''rtpvp8pay'')\<rparr>)
     ''h264'' ''h264'' = Some (''vp8enc'', ''rtpvp8pay'')"
  "select_encoder ((all_ok [vp8enc])\<lparr>set_property_ok := (\<lambda>e n. factory_name e \<noteq> ''rtpvp8pay'')\<rparr>)
     ''unknown-codec'' ''h264'' = Some (''vp8enc'', ''rtpvp8pay'')"
  by code_simp+

section \<open>Failed builds\<close>

text \<open>
  Claim C1, as the code has it. A build that returns \<open>None\<close> holds as many request pads
  of the tee as before the call: a pad that was acquired is released on every path that
  returns \<open>None\<close>. The table \<open>client_codecs\<close> is not rolled back. Once the
  \<open>webrtcbin\<close> has been made, a call that gives both a client id and a preference has
  written the preference under the client id, and the entry stays when the build fails;
  in every other case the table is as before the call.
\<close>

theorem create_webrtcbin_failure_state:
  assumes "fst (create_webrtcbin env client_id codec_preference s) = Returned None"
  shows "tee_src_pads (snd (create_webrtcbin env client_id codec_preference s)) = tee_src_pads s
       \<and> client_codecs (snd (create_webrtcbin env client_id codec_preference s)) =
           (if make_ok env ''webrtcbin''
            then (case client_id of
                    None \<Rightarrow> client_codecs s
                  | Some c \<Rightarrow>
                      (case codec_preference of
                         None \<Rightarrow> client_codecs s
                       | Some p \<Rightarrow> (client_codecs s)(c \<mapsto> p)))
            else client_codecs s)"
  using assms
  by (simp add: create_webrtcbin_tee create_webrtcbin_client_codecs choose_codec_client_codecs)

text \<open>A build whose link from the tee pad to the queue is refused: the pad that was
  requested is released, and the entry written for the client stays.\<close>

theorem create_webrtcbin_failure_state_witness:
  "fst (create_webrtcbin ((all_ok [vp8enc])\<lparr>pad_link_ok := False\<rparr>)
          (Some ''A'') (Some ''vp8'') init) = Returned None
   \<and> Tee_get_request_pad \<in> set (calls (snd (create_webrtcbin
          ((all_ok [vp8enc])\<lparr>pad_link_ok := False\<rparr>) (Some ''A'') (Some ''vp8'') init)))
   \<and> Tee_release_request_pad \<in> set (calls (snd (create_webrtcbin
          ((all_ok [vp8enc])\<lparr>pad_link_ok := False\<rparr>) (Some ''A'') (Some ''vp8'') init)))
   \<and> tee_src_pads (snd (create_webrtcbin ((all_ok [vp8enc])\<lparr>pad_link_ok := False\<rparr>)
          (Some ''A'') (Some ''vp8'') init)) = tee_src_pads init
   \<and> client_codecs init = Map.empty
   \<and> client_codecs (snd (create_webrtcbin ((all_ok [vp8enc])\<lparr>pad_link_ok := False\<rparr>)
          (Some ''A'') (Some ''vp8'') init)) = [''A'' \<mapsto> ''vp8'']"
proof -
  let ?E = "(all_ok [vp8enc])\<lparr>pad_link_ok := False\<rparr>"
  have h: "fst (create_webrtcbin ?E (Some ''A'') (Some ''vp8'') init) = Returned None"
    by (simp add: create_webrtcbin_result build_result_def links_ok_def choose_codec_fst
          select_no_pad_link)
  have m: "make_ok ?E ''webrtcbin''" by simp
  have c: "Tee_get_request_pad \<in> set (calls (snd (create_webrtcbin ?E (Some ''A'') (Some ''vp8'') init)))"
    "Tee_release_request_pad \<in> set (calls (snd (create_webrtcbin ?E (Some ''A'') (Some ''vp8'') init)))"
    by (simp_all add: refused_pad_link_calls)
  from create_webrtcbin_failure_state[OF h] h m c show ?thesis by simp
qed

text \<open>
  Claim C1 as stated fails: with no encoder in the registry, the build for client \<open>A\<close>
  with preference \<open>h264\<close> returns \<open>None\<close>, and the table, empty before, holds
  \<open>A \<mapsto> h264\<close> afterwards.
\<close>

theorem create_webrtcbin_failure_keeps_entry:
  "fst (create_webrtcbin (all_ok []) (Some ''A'') (Some ''h264'') init) = Returned None
   \<and> client_codecs init ''A'' = None
   \<and> client_codecs (snd (create_webrtcbin (all_ok []) (Some ''A'') (Some ''h264'') init)) ''A''
       = Some ''h264''"
  by (simp add: create_webrtcbin_result create_webrtcbin_client_codecs build_result_def
        choose_codec_fst choose_codec_client_codecs select_nothing)

section \<open>The fallback of the encoder selection\<close>

text \<open>
  Claim C2, as the code has it. A name that is not in the codec table selects nothing in
  \<open>find_best_encoder\<close>. A codec of the table without a matching encoder is replaced,
  inside \<open>find_best_encoder\<close>, by the fixed codec \<open>'vp8'\<close> (one recursive call;
  \<open>'vp8'\<close> itself is not retried). \<open>create_webrtcbin\<close> turns to the configured
  \<open>video_codec\<close> only when that first search gave nothing, and the second search has
  the same retry with \<open>'vp8'\<close>. When both give nothing the method returns \<open>None\<close>
  having made the \<open>webrtcbin\<close> only and acquired no pad; the state is the one after
  the write to \<open>client_codecs\<close>, with four calls logged.
\<close>

theorem create_webrtcbin_encoder_fallback:
  "(codec_caps codec_name = None \<longrightarrow> find_best_encoder env codec_name = (None, None))
   \<and> (\<forall>target_caps.
         codec_caps codec_name = Some target_caps \<and> matching_factories env target_caps = []
         \<longrightarrow> find_best_encoder env codec_name =
               (if codec_name = ''vp8'' then (None, None) else find_best_encoder env ''vp8''))
   \<and> select_encoder env codec_name default_codec =
         (case names (find_best_encoder env codec_name) of
            Some found \<Rightarrow> Some found
          | None \<Rightarrow> names (find_best_encoder env default_codec))
   \<and> (make_ok env ''webrtcbin''
        \<and> select_encoder env (fst (choose_codec client_id codec_preference s)) (video_codec s) = None
       \<longrightarrow> create_webrtcbin env client_id codec_preference s =
             (Returned None,
              emits [ElementFactory_make ''webrtcbin'' None,
                     Set_property (Element ''webrtcbin'' None) ''stun-server'',
                     Set_state_NULL (Element ''webrtcbin'' None),
                     Bin_remove (Element ''webrtcbin'' None)]
                (snd (choose_codec client_id codec_preference s))))"
proof (intro conjI allI impI)
  assume "codec_caps codec_name = None"
  then show "find_best_encoder env codec_name = (None, None)"
    by (rule find_best_encoder_unknown)
next
  fix target_caps
  assume "codec_caps codec_name = Some target_caps \<and> matching_factories env target_caps = []"
  then show "find_best_encoder env codec_name =
      (if codec_name = ''vp8'' then (None, None) else find_best_encoder env ''vp8'')"
    using find_best_encoder_no_match by blast
next
  show "select_encoder env codec_name default_codec =
         (case names (find_best_encoder env codec_name) of
            Some found \<Rightarrow> Some found
          | None \<Rightarrow> names (find_best_encoder env default_codec))"
    by (simp add: select_encoder_def)
next
  assume "make_ok env ''webrtcbin''
        \<and> select_encoder env (fst (choose_codec client_id codec_preference s)) (video_codec s) = None"
  then show "create_webrtcbin env client_id codec_preference s =
             (Returned None,
              emits [ElementFactory_make ''webrtcbin'' None,
                     Set_property (Element ''webrtcbin'' None) ''stun-server'',
                     Set_state_NULL (Element ''webrtcbin'' None),
                     Bin_remove (Element ''webrtcbin'' None)]
                (snd (choose_codec client_id codec_preference s)))"
    by (simp add: create_webrtcbin_def Let_def choose_codec_emits_commute)
qed

text \<open>An empty registry: the search for \<open>h264\<close> is the search for \<open>vp8\<close>, and the
  build returns \<open>None\<close>.\<close>

theorem create_webrtcbin_encoder_fallback_witness:
  "codec_caps ''h264'' = Some ''video/x-h264''
   \<and> matching_factories (all_ok []) ''video/x-h264'' = []
   \<and> find_best_encoder (all_ok []) ''h264'' = find_best_encoder (all_ok []) ''vp8''
   \<and> create_webrtcbin (all_ok []) (Some ''A'') (Some ''h264'') init =
        (Returned None,
         emits [ElementFactory_make ''webrtcbin'' None,
                Set_property (Element ''webrtcbin'' None) ''stun-server'',
                Set_state_NULL (Element ''webrtcbin'' None),
                Bin_remove (Element ''webrtcbin'' None)]
           (snd (choose_codec (Some ''A'') (Some ''h264'') init)))"
proof -
  have h1: "codec_caps ''h264'' = Some ''video/x-h264''" by (simp add: codec_caps_def)
  have h2: "matching_factories (all_ok []) ''video/x-h264'' = []"
    by (simp add: matching_factories_def)
  have h3: "select_encoder (all_ok []) (fst (choose_codec (Some ''A'') (Some ''h264'') init))
              (video_codec init) = None"
    by (simp add: select_nothing)
  from create_webrtcbin_encoder_fallback
         [of "''h264''" "all_ok []" "''vp8''" "Some ''A''" "Some ''h264''" init] h1 h2 h3
  show ?thesis by simp
qed

text \<open>
  Claim C2 as stated fails: the registry has an encoder for VP8 and one for VP9 and none
  for H.264, and the configured default is \<open>vp9\<close>. The build for preference \<open>h264\<close>
  makes the VP8 encoder and payloader: the fallback went to \<open>vp8\<close>, not to the
  configured default, for which an encoder exists. (The build returns the
  \<open>webrtcbin\<close> here because this environment accepts the property writes of lines
  393-394 on every payloader.)
\<close>

theorem create_webrtcbin_fallback_not_default:
  "video_codec (init\<lparr>video_codec := ''vp9''\<rparr>) = ''vp9''
   \<and> matching_factories (all_ok [vp8enc, vp9enc]) ''video/x-h264'' = []
   \<and> find_best_encoder (all_ok [vp8enc, vp9enc]) ''vp9'' = (Some ''vp9enc'', Some ''rtpvp9pay'')
   \<and> fst (create_webrtcbin (all_ok [vp8enc, vp9enc]) (Some ''A'') (Some ''h264'')
             (init\<lparr>video_codec := ''vp9''\<rparr>))
       = Returned (Some (Element ''webrtcbin'' None))
   \<and> made (calls (snd (create_webrtcbin (all_ok [vp8enc, vp9enc]) (Some ''A'') (Some ''h264'')
             (init\<lparr>video_codec := ''vp9''\<rparr>))))
       = [''webrtcbin'', ''vp8enc'', ''rtpvp8pay'', ''queue'']"
  by (simp add: select_two_encoders create_webrtcbin_result create_webrtcbin_made build_result_def
        instantiated_def links_ok_def choose_codec_fst)

section \<open>One branch for each client\<close>




section \<open>A preference that is not in the codec table\<close>

lemma unknown_not_h264: "codec_caps p = None \<Longrightarrow> p \<noteq> ''h264''"
  by (auto simp: codec_caps_def)

text \<open>
  Claim C5, as the code has it. For a preference \<open>p\<close> that is not a key of the codec
  table, the encoder and payloader are the ones selected for the configured
  \<open>video_codec\<close>, and the build asks the same factories for elements as the build
  without a preference. The table differs: without a preference nothing is written,
  with the unknown preference and a client id the name \<open>p\<close> is recorded under the
  client id as soon as the \<open>webrtcbin\<close> has been made. When the configured codec is
  not \<open>h264\<close> the two builds have the same result and the same number of pads. (When
  it is \<open>h264\<close> the settings of lines 361-394 run in the build without a preference
  only, since they are keyed on the name recorded; nothing is stated for that case.)
\<close>

theorem create_webrtcbin_unknown_preference:
  assumes "codec_caps p = None"
  shows "select_encoder env p (video_codec s) = names (find_best_encoder env (video_codec s))
     \<and> made (calls (snd (create_webrtcbin env client_id (Some p) s)))
         = made (calls (snd (create_webrtcbin env client_id None s)))
     \<and> client_codecs (snd (create_webrtcbin env client_id None s)) = client_codecs s
     \<and> client_codecs (snd (create_webrtcbin env client_id (Some p) s)) =
         (case client_id of
            None \<Rightarrow> client_codecs s
          | Some c \<Rightarrow> if make_ok env ''webrtcbin'' then (client_codecs s)(c \<mapsto> p)
                      else client_codecs s)
     \<and> (video_codec s \<noteq> ''h264'' \<longrightarrow>
           fst (create_webrtcbin env client_id (Some p) s)
             = fst (create_webrtcbin env client_id None s)
           \<and> tee_src_pads (snd (create_webrtcbin env client_id (Some p) s))
             = tee_src_pads (snd (create_webrtcbin env client_id None s)))"
proof -
  have sel: "select_encoder env (fst (choose_codec client_id (Some p) s)) (video_codec s)
           = select_encoder env (fst (choose_codec client_id None s)) (video_codec s)"
    using assms
    by (simp add: choose_codec_fst select_encoder_unknown select_encoder_same split: option.splits)
  have m: "made (calls (snd (create_webrtcbin env client_id (Some p) s)))
         = made (calls (snd (create_webrtcbin env client_id None s)))"
    by (simp only: create_webrtcbin_made sel)
  have c0: "client_codecs (snd (create_webrtcbin env client_id None s)) = client_codecs s"
    by (simp add: create_webrtcbin_client_codecs choose_codec_client_codecs split: option.splits)
  have c1: "client_codecs (snd (create_webrtcbin env client_id (Some p) s)) =
         (case client_id of
            None \<Rightarrow> client_codecs s
          | Some c \<Rightarrow> if make_ok env ''webrtcbin'' then (client_codecs s)(c \<mapsto> p)
                      else client_codecs s)"
    by (simp add: create_webrtcbin_client_codecs choose_codec_client_codecs split: option.splits)
  have eq: "video_codec s \<noteq> ''h264'' \<longrightarrow>
           fst (create_webrtcbin env client_id (Some p) s)
             = fst (create_webrtcbin env client_id None s)
           \<and> tee_src_pads (snd (create_webrtcbin env client_id (Some p) s))
             = tee_src_pads (snd (create_webrtcbin env client_id None s))"
  proof
    assume d: "video_codec s \<noteq> ''h264''"
    have n1: "fst (choose_codec client_id (Some p) s) \<noteq> ''h264''"
      using d unknown_not_h264[OF assms] by (simp add: choose_codec_fst split: option.splits)
    have n2: "fst (choose_codec client_id None s) \<noteq> ''h264''"
      using d by (simp add: choose_codec_fst split: option.splits)
    have r: "fst (create_webrtcbin env client_id (Some p) s)
           = fst (create_webrtcbin env client_id None s)"
      by (simp add: create_webrtcbin_result build_result_def sel tuning_ok_def n1 n2
          split: option.splits)
    then show "fst (create_webrtcbin env client_id (Some p) s)
             = fst (create_webrtcbin env client_id None s)
           \<and> tee_src_pads (snd (create_webrtcbin env client_id (Some p) s))
             = tee_src_pads (snd (create_webrtcbin env client_id None s))"
      by (simp only: create_webrtcbin_tee r)
  qed
  from assms m c0 c1 eq show ?thesis by (simp add: select_encoder_unknown)
qed

theorem create_webrtcbin_unknown_preference_witness:
  "codec_caps ''unknown-codec'' = None
   \<and> video_codec init \<noteq> ''h264''
   \<and> fst (create_webrtcbin (all_ok [vp8enc]) (Some ''B'') (Some ''unknown-codec'') init)
       = Returned (Some (Element ''webrtcbin'' None))
   \<and> fst (create_webrtcbin (all_ok [vp8enc]) (Some ''B'') None init)
       = Returned (Some (Element ''webrtcbin'' None))
   \<and> made (calls (snd (create_webrtcbin (all_ok [vp8enc]) (Some ''B'') (Some ''unknown-codec'') init)))
       = [''webrtcbin'', ''vp8enc'', ''rtpvp8pay'', ''queue'']"
proof -
  have d: "video_codec init \<noteq> ''h264''" by simp
  have r0: "fst (create_webrtcbin (all_ok [vp8enc]) (Some ''B'') None init)
       = Returned (Some (Element ''webrtcbin'' None))"
    by (simp add: create_webrtcbin_result build_result_def links_ok_def choose_codec_fst
          select_vp8_only)
  have m0: "made (calls (snd (create_webrtcbin (all_ok [vp8enc]) (Some ''B'') None init)))
       = [''webrtcbin'', ''vp8enc'', ''rtpvp8pay'', ''queue'']"
    by (simp add: create_webrtcbin_made instantiated_def choose_codec_fst select_vp8_only)
  from create_webrtcbin_unknown_preference[OF unknown_codec, of "all_ok [vp8enc]" init "Some ''B''"]
    unknown_codec d r0 m0
  show ?thesis by simp
qed

text \<open>
  Claim C5 as stated fails: the build for client \<open>B\<close> with the preference
  \<open>unknown-codec\<close>, a name that is not in the table, records \<open>B \<mapsto> unknown-codec\<close>,
  where the build without a preference records nothing for \<open>B\<close>.
\<close>

theorem create_webrtcbin_records_unknown_preference:
  "codec_caps ''unknown-codec'' = None
   \<and> client_codecs (snd (create_webrtcbin (all_ok [vp8enc]) (Some ''B'') (Some ''unknown-codec'') init)) ''B''
       = Some ''unknown-codec''
   \<and> client_codecs (snd (create_webrtcbin (all_ok [vp8enc]) (Some ''B'') None init)) ''B'' = None"
  by (simp add: unknown_codec create_webrtcbin_client_codecs choose_codec_client_codecs)

text \<open>
  The case left out above: the configured codec is \<open>h264\<close>, served by the VP8 encoder
  through the retry with \<open>vp8\<close>, and the VP8 payloader has none of the two properties
  written at lines 393-394. The build without a preference raises after the branch is
  linked and the pad acquired; the build with the unknown preference skips the writes and
  returns the \<open>webrtcbin\<close>.
\<close>

lemma unguarded_payloader_write_raises:
  "fst (create_webrtcbin
         ((all_ok [vp8enc])\<lparr>set_property_ok := (\<lambda>e n. factory_name e \<noteq> ''rtpvp8pay'')\<rparr>)
         (Some ''B'') None (init\<lparr>video_codec := ''h264''\<rparr>)) = Raised TypeError
   \<and> tee_src_pads (snd (create_webrtcbin
         ((all_ok [vp8enc])\<lparr>set_property_ok := (\<lambda>e n. factory_name e \<noteq> ''rtpvp8pay'')\<rparr>)
         (Some ''B'') None (init\<lparr>video_codec := ''h264''\<rparr>))) = 1
   \<and> fst (create_webrtcbin
         ((all_ok [vp8enc])\<lparr>set_property_ok := (\<lambda>e n. factory_name e \<noteq> ''rtpvp8pay'')\<rparr>)
         (Some ''B'') (Some ''unknown-codec'') (init\<lparr>video_codec := ''h264''\<rparr>))
       = Returned (Some (Element ''webrtcbin'' None))"
  by (simp add: create_webrtcbin_tee create_webrtcbin_result build_result_def links_ok_def
        tuning_ok_def choose_codec_fst h264_default_on_vp8)

section \<open>The order in which the elements are made\<close>

text \<open>
  Claim C7, as the code has it. The elements of a branch are made in the order
  \<open>webrtcbin\<close>, encoder, payloader, queue. The first three are each tested before the
  next one is made: a factory that gives no element is the last one asked. (What
  happens when the queue is not made is claim C10.)
\<close>

theorem create_webrtcbin_instantiation_order:
  "made (calls (snd (create_webrtcbin env client_id codec_preference s))) =
     made (calls s) @
       (if \<not> make_ok env ''webrtcbin'' then [''webrtcbin'']
        else case select_encoder env (fst (choose_codec client_id codec_preference s))
                    (video_codec s) of
          None \<Rightarrow> [''webrtcbin'']
        | Some (encoder_name, payloader_name) \<Rightarrow>
            if \<not> make_ok env encoder_name then [''webrtcbin'', encoder_name]
            else if \<not> make_ok env payloader_name
            then [''webrtcbin'', encoder_name, payloader_name]
            else [''webrtcbin'', encoder_name, payloader_name, ''queue''])"
  by (simp add: create_webrtcbin_made instantiated_def)

text \<open>When the payloader cannot be made, no queue is asked for.\<close>

theorem create_webrtcbin_instantiation_order_witness:
  "made (calls (snd (create_webrtcbin ((all_ok [vp8enc])\<lparr>make_ok := (\<lambda>n. n \<noteq> ''rtpvp8pay'')\<rparr>)
       (Some ''A'') (Some ''vp8'') init))) = [''webrtcbin'', ''vp8enc'', ''rtpvp8pay'']"
  using create_webrtcbin_instantiation_order
          [of "(all_ok [vp8enc])\<lparr>make_ok := (\<lambda>n. n \<noteq> ''rtpvp8pay'')\<rparr>" "Some ''A''" "Some ''vp8''" init]
  by (simp add: select_no_payloader choose_codec_fst)

text \<open>
  Claim C7 as stated fails: in a build that succeeds the queue is made last, after the
  encoder and the payloader, not second.
\<close>

theorem create_webrtcbin_queue_made_last:
  "made (calls (snd (create_webrtcbin (all_ok [vp8enc]) (Some ''A'') (Some ''vp8'') init)))
     = [''webrtcbin'', ''vp8enc'', ''rtpvp8pay'', ''queue'']
   \<and> made (calls (snd (create_webrtcbin (all_ok [vp8enc]) (Some ''A'') (Some ''vp8'') init)))
     \<noteq> [''webrtcbin'', ''queue'', ''vp8enc'', ''rtpvp8pay'']"
  by (simp add: create_webrtcbin_made instantiated_def choose_codec_fst select_vp8_only)

section \<open>The queue that is not made\<close>

text \<open>
  Claim C10. When the \<open>webrtcbin\<close>, the encoder and the payloader have been made and
  \<open>ElementFactory.make('queue', None)\<close> returns \<open>None\<close>, the call does not return
  \<open>None\<close>: it raises at the property write of line 265, before the test of line 266.
  The last call logged is the request for the queue; the \<open>webrtcbin\<close> added to the bin
  at line 261 is not removed.
\<close>

theorem create_webrtcbin_queue_failure_raises:
  assumes "make_ok env ''webrtcbin''"
    and "select_encoder env (fst (choose_codec client_id codec_preference s)) (video_codec s)
           = Some (encoder_name, payloader_name)"
    and "make_ok env encoder_name" and "make_ok env payloader_name"
    and "\<not> make_ok env ''queue''"
  shows "fst (create_webrtcbin env client_id codec_preference s) = Raised AttributeError
       \<and> fst (create_webrtcbin env client_id codec_preference s) \<noteq> Returned None
       \<and> calls (snd (create_webrtcbin env client_id codec_preference s)) =
           calls s @
           [ElementFactory_make ''webrtcbin'' None,
            Set_property (Element ''webrtcbin'' None) ''stun-server'',
            ElementFactory_make encoder_name (Some (''encoder-'' @ format_client client_id)),
            ElementFactory_make payloader_name (Some (''payloader-'' @ format_client client_id)),
            Bin_add (Element ''webrtcbin'' None),
            ElementFactory_make ''queue'' None]"
  using assms
  by (simp add: create_webrtcbin_def Let_def choose_codec_emits_commute)

theorem create_webrtcbin_queue_failure_raises_witness:
  "\<not> make_ok ((all_ok [vp8enc])\<lparr>make_ok := (\<lambda>n. n \<noteq> ''queue'')\<rparr>) ''queue''
   \<and> fst (create_webrtcbin ((all_ok [vp8enc])\<lparr>make_ok := (\<lambda>n. n \<noteq> ''queue'')\<rparr>)
            (Some ''A'') (Some ''vp8'') init) = Raised AttributeError"
proof -
  let ?E = "(all_ok [vp8enc])\<lparr>make_ok := (\<lambda>n. n \<noteq> ''queue'')\<rparr>"
  have h1: "make_ok ?E ''webrtcbin''" by simp
  have h2: "select_encoder ?E (fst (choose_codec (Some ''A'') (Some ''vp8'') init)) (video_codec init)
              = Some (''vp8enc'', ''rtpvp8pay'')"
    by (simp add: choose_codec_fst select_no_queue)
  have h3: "make_ok ?E ''vp8enc''" by simp
  have h4: "make_ok ?E ''rtpvp8pay''" by simp
  have h5: "\<not> make_ok ?E ''queue''" by simp
  from create_webrtcbin_queue_failure_raises[OF h1 h2 h3 h4 h5] h5 show ?thesis by simp
qed

section \<open>Activation and deactivation\<close>

lemma start_servers_frame [simp]:
  "tee_src_pads (snd (start_servers env s)) = tee_src_pads s"
  "client_codecs (snd (start_servers env s)) = client_codecs s"
  "video_codec (snd (start_servers env s)) = video_codec s"
  "servers_started (snd (start_servers env s)) = servers_started s"
  by (simp_all add: start_servers_def Let_def)

lemma start_servers_ok:
  "start_failure env = None \<Longrightarrow>
     start_servers env s =
       (Returned (),
        s\<lparr>http_server := True, http_thread := True, signaling := True, signaling_thread := True,
          calls := calls s @ [Socket_bind, Http_thread_start, Signaling_thread_start]\<rparr>)"
  by (simp add: start_servers_def Let_def emits_def)

lemma start_servers_raises:
  "start_failure env = Some step \<Longrightarrow> fst (start_servers env s) = Raised (Exception_at step)"
  by (cases step) (simp_all add: start_servers_def Let_def)

lemma stop_servers_frame [simp]:
  "tee_src_pads (stop_servers s) = tee_src_pads s"
  "client_codecs (stop_servers s) = client_codecs s"
  "video_codec (stop_servers s) = video_codec s"
  "servers_started (stop_servers s) = servers_started s"
  "\<not> http_server (stop_servers s)"
  "\<not> signaling (stop_servers s)"
  by (simp_all add: stop_servers_def Let_def)

lemma do_change_state_frame [simp]:
  "tee_src_pads (snd (do_change_state env t s)) = tee_src_pads s"
  "client_codecs (snd (do_change_state env t s)) = client_codecs s"
  "video_codec (snd (do_change_state env t s)) = video_codec s"
  by (simp_all add: do_change_state_def case_prod_unfold split: outcome.splits)

lemma deactivate_stops:
  "\<not> servers_started (snd (do_change_state env READY_TO_NULL s))"
  "fst (do_change_state env READY_TO_NULL s) = parent_change_state env READY_TO_NULL"
  by (simp_all add: do_change_state_def)

lemma activate_ok:
  "\<not> servers_started s \<Longrightarrow> start_failure env = None \<Longrightarrow>
     do_change_state env NULL_TO_READY s =
       (parent_change_state env NULL_TO_READY,
        s\<lparr>servers_started := True, http_server := True, http_thread := True,
          signaling := True, signaling_thread := True,
          calls := calls s @ [Socket_bind, Http_thread_start, Signaling_thread_start]\<rparr>)"
  by (simp add: do_change_state_def start_servers_ok)

lemma stop_servers_started:
  "http_server s \<Longrightarrow> signaling s \<Longrightarrow>
     stop_servers s =
       s\<lparr>http_server := False, http_thread := False, signaling := False,
         signaling_thread := False, calls := calls s @ [Http_server_shutdown, Signaling_stop]\<rparr>"
  by (simp add: stop_servers_def Let_def emits_def)

text \<open>
  Claim C3, as the code has it. When the servers are marked as started, the transition
  \<open>READY_TO_NULL\<close> shuts down the HTTP server and stops the signaling server (each if
  it is set), and these are the only calls it makes; in every case it leaves the element
  idle (\<open>servers_started\<close> false) and hands the transition to the parent class. It
  tears down no branch: the tee holds the request pads it held before,
  \<open>client_codecs\<close> is unchanged and no element is made or removed. The file has no
  teardown of a branch.
\<close>

theorem deactivate_keeps_branches:
  "tee_src_pads (snd (do_change_state env READY_TO_NULL s)) = tee_src_pads s
   \<and> client_codecs (snd (do_change_state env READY_TO_NULL s)) = client_codecs s
   \<and> made (calls (snd (do_change_state env READY_TO_NULL s))) = made (calls s)
   \<and> pipeline_state (snd (do_change_state env READY_TO_NULL s)) = Idle
   \<and> fst (do_change_state env READY_TO_NULL s) = parent_change_state env READY_TO_NULL
   \<and> calls (snd (do_change_state env READY_TO_NULL s)) =
        calls s @ (if servers_started s
                   then (if http_server s then [Http_server_shutdown] else [])
                        @ (if signaling s then [Signaling_stop] else [])
                   else [])
   \<and> http_server (snd (do_change_state env READY_TO_NULL s))
        = (http_server s \<and> \<not> servers_started s)
   \<and> signaling (snd (do_change_state env READY_TO_NULL s))
        = (signaling s \<and> \<not> servers_started s)"
  by (simp add: deactivate_stops pipeline_state_def)
    (simp add: do_change_state_def stop_servers_def Let_def emits_def made_append)

text \<open>A deactivation with both servers running and two pads held.\<close>

theorem deactivate_keeps_branches_witness:
  "calls (snd (do_change_state (all_ok []) READY_TO_NULL
      (init\<lparr>servers_started := True, http_server := True, signaling := True,
            tee_src_pads := 2\<rparr>))) = [Http_server_shutdown, Signaling_stop]
   \<and> \<not> http_server (snd (do_change_state (all_ok []) READY_TO_NULL
      (init\<lparr>servers_started := True, http_server := True, signaling := True,
            tee_src_pads := 2\<rparr>)))
   \<and> \<not> signaling (snd (do_change_state (all_ok []) READY_TO_NULL
      (init\<lparr>servers_started := True, http_server := True, signaling := True,
            tee_src_pads := 2\<rparr>)))
   \<and> tee_src_pads (snd (do_change_state (all_ok []) READY_TO_NULL
      (init\<lparr>servers_started := True, http_server := True, signaling := True,
            tee_src_pads := 2\<rparr>))) = 2
   \<and> pipeline_state (snd (do_change_state (all_ok []) READY_TO_NULL
      (init\<lparr>servers_started := True, http_server := True, signaling := True,
            tee_src_pads := 2\<rparr>))) = Idle"
  using deactivate_keeps_branches
          [of "all_ok []" "init\<lparr>servers_started := True, http_server := True, signaling := True,
            tee_src_pads := 2\<rparr>"]
  by simp

text \<open>
  Claim C3 as stated fails: after an activation and one build the tee holds one request
  pad and the element is active; after the deactivation the element is idle and the tee
  still holds that pad.
\<close>

theorem deactivate_leaves_tap:
  "tee_src_pads
     (snd (create_webrtcbin (all_ok [vp8enc]) (Some ''A'') (Some ''vp8'')
            (snd (do_change_state (all_ok [vp8enc]) NULL_TO_READY init)))) = 1
   \<and> pipeline_state
       (snd (create_webrtcbin (all_ok [vp8enc]) (Some ''A'') (Some ''vp8'')
            (snd (do_change_state (all_ok [vp8enc]) NULL_TO_READY init)))) = Active
   \<and> tee_src_pads
       (snd (do_change_state (all_ok [vp8enc]) READY_TO_NULL
         (snd (create_webrtcbin (all_ok [vp8enc]) (Some ''A'') (Some ''vp8'')
            (snd (do_change_state (all_ok [vp8enc]) NULL_TO_READY init)))))) = 1
   \<and> pipeline_state
       (snd (do_change_state (all_ok [vp8enc]) READY_TO_NULL
         (snd (create_webrtcbin (all_ok [vp8enc]) (Some ''A'') (Some ''vp8'')
            (snd (do_change_state (all_ok [vp8enc]) NULL_TO_READY init)))))) = Idle"
  by (simp add: deactivate_stops pipeline_state_def create_webrtcbin_tee create_webrtcbin_result
        build_result_def links_ok_def choose_codec_fst select_vp8_only activate_ok)

text \<open>
  Claim C8. An activation while the servers are marked as started changes nothing, and
  neither does a deactivation while they are not; both hand the transition to the parent
  class. So a second activation after one that succeeded, and a second deactivation,
  leave the state of the first. In a cycle of two activations and two deactivations from
  an idle element the socket is bound once, each server thread is started once and each
  server is stopped once.
\<close>

theorem do_change_state_idempotent:
  "(servers_started s \<longrightarrow>
      do_change_state env NULL_TO_READY s = (parent_change_state env NULL_TO_READY, s))
   \<and> (\<not> servers_started s \<longrightarrow>
      do_change_state env READY_TO_NULL s = (parent_change_state env READY_TO_NULL, s))
   \<and> (start_failure env = None \<longrightarrow>
        servers_started (snd (do_change_state env NULL_TO_READY s))
        \<and> snd (do_change_state env' NULL_TO_READY (snd (do_change_state env NULL_TO_READY s)))
            = snd (do_change_state env NULL_TO_READY s))
   \<and> \<not> servers_started (snd (do_change_state env READY_TO_NULL s))
   \<and> snd (do_change_state env' READY_TO_NULL (snd (do_change_state env READY_TO_NULL s)))
       = snd (do_change_state env READY_TO_NULL s)
   \<and> (\<not> servers_started s \<and> \<not> http_server s \<and> \<not> signaling s \<and> start_failure env = None \<longrightarrow>
        calls (snd (do_change_state env READY_TO_NULL
                 (snd (do_change_state env READY_TO_NULL
                   (snd (do_change_state env NULL_TO_READY
                     (snd (do_change_state env NULL_TO_READY s))))))))
          = calls s @ [Socket_bind, Http_thread_start, Signaling_thread_start,
                       Http_server_shutdown, Signaling_stop])"
proof -
  have a: "servers_started s \<longrightarrow>
      do_change_state env NULL_TO_READY s = (parent_change_state env NULL_TO_READY, s)"
    by (simp add: do_change_state_def)
  have b: "\<not> servers_started s \<longrightarrow>
      do_change_state env READY_TO_NULL s = (parent_change_state env READY_TO_NULL, s)"
    by (simp add: do_change_state_def)
  have c1: "start_failure env = None \<longrightarrow> servers_started (snd (do_change_state env NULL_TO_READY s))"
    by (simp add: do_change_state_def start_servers_ok)
  have c2: "start_failure env = None \<longrightarrow>
      snd (do_change_state env' NULL_TO_READY (snd (do_change_state env NULL_TO_READY s)))
            = snd (do_change_state env NULL_TO_READY s)"
  proof
    assume "start_failure env = None"
    with c1 have "servers_started (snd (do_change_state env NULL_TO_READY s))" by simp
    then show "snd (do_change_state env' NULL_TO_READY (snd (do_change_state env NULL_TO_READY s)))
            = snd (do_change_state env NULL_TO_READY s)"
      by (simp add: do_change_state_def[of env' NULL_TO_READY])
  qed
  have d: "\<not> servers_started (snd (do_change_state env READY_TO_NULL s))"
    by (rule deactivate_stops)
  then have e: "snd (do_change_state env' READY_TO_NULL (snd (do_change_state env READY_TO_NULL s)))
       = snd (do_change_state env READY_TO_NULL s)"
    by (simp add: do_change_state_def[of env' READY_TO_NULL])
  have f: "\<not> servers_started s \<and> \<not> http_server s \<and> \<not> signaling s \<and> start_failure env = None \<longrightarrow>
        calls (snd (do_change_state env READY_TO_NULL
                 (snd (do_change_state env READY_TO_NULL
                   (snd (do_change_state env NULL_TO_READY
                     (snd (do_change_state env NULL_TO_READY s))))))))
          = calls s @ [Socket_bind, Http_thread_start, Signaling_thread_start,
                       Http_server_shutdown, Signaling_stop]"
  proof
    assume h: "\<not> servers_started s \<and> \<not> http_server s \<and> \<not> signaling s \<and> start_failure env = None"
    define s1 where "s1 = snd (do_change_state env NULL_TO_READY s)"
    have s1: "s1 = s\<lparr>servers_started := True, http_server := True, http_thread := True,
          signaling := True, signaling_thread := True,
          calls := calls s @ [Socket_bind, Http_thread_start, Signaling_thread_start]\<rparr>"
      using h by (simp add: s1_def activate_ok)
    have s2: "snd (do_change_state env NULL_TO_READY s1) = s1"
      using s1 by (simp add: do_change_state_def)
    define s3 where "s3 = snd (do_change_state env READY_TO_NULL s1)"
    have s3: "calls s3 = calls s @ [Socket_bind, Http_thread_start, Signaling_thread_start,
                       Http_server_shutdown, Signaling_stop]" "\<not> servers_started s3"
      using s1 by (simp_all add: s3_def do_change_state_def stop_servers_started)
    have s4: "snd (do_change_state env READY_TO_NULL s3) = s3"
      using s3(2) by (simp add: do_change_state_def)
    show "calls (snd (do_change_state env READY_TO_NULL
                 (snd (do_change_state env READY_TO_NULL
                   (snd (do_change_state env NULL_TO_READY
                     (snd (do_change_state env NULL_TO_READY s))))))))
          = calls s @ [Socket_bind, Http_thread_start, Signaling_thread_start,
                       Http_server_shutdown, Signaling_stop]"
      using s2 s4 s3(1) by (simp add: s1_def[symmetric] s3_def[symmetric])
  qed
  from a b c1 c2 d e f show ?thesis by blast
qed

theorem do_change_state_idempotent_witness:
  "\<not> servers_started init \<and> \<not> http_server init \<and> \<not> signaling init
   \<and> start_failure (all_ok []) = None
   \<and> do_change_state (all_ok []) READY_TO_NULL init
       = (parent_change_state (all_ok []) READY_TO_NULL, init)
   \<and> servers_started (snd (do_change_state (all_ok []) NULL_TO_READY init))
   \<and> calls (snd (do_change_state (all_ok []) READY_TO_NULL
              (snd (do_change_state (all_ok []) READY_TO_NULL
                (snd (do_change_state (all_ok []) NULL_TO_READY
                  (snd (do_change_state (all_ok []) NULL_TO_READY init))))))))
       = calls init @ [Socket_bind, Http_thread_start, Signaling_thread_start,
                       Http_server_shutdown, Signaling_stop]"
proof -
  have pre: "\<not> servers_started init" "\<not> http_server init" "\<not> signaling init"
    "start_failure (all_ok []) = None"
    by simp_all
  from do_change_state_idempotent[of init "all_ok []" "all_ok []"] pre
  show ?thesis by blast
qed

text \<open>
  Claim C9 at a failing input. The constructor of the signaling server raises during
  the activation of a new element, after the HTTP server has been bound and its thread
  started. \<open>do_change_state\<close> returns \<open>FAILURE\<close> and the element is idle, as the claim
  says. But the handler of line 455 does not call \<open>stop_servers\<close>: the HTTP server
  stays set, and a deactivation does not shut it down either, since \<open>stop_servers\<close>
  runs only when \<open>servers_started\<close> is true. The port is still held when the
  activation is tried again, so the bind of line 471 raises and the retry returns
  \<open>FAILURE\<close>.
\<close>

theorem activation_failure_leaves_http_server:
  "fst (do_change_state ((all_ok [])\<lparr>start_failure := Some Create_SignalingServer\<rparr>)
          NULL_TO_READY init) = FAILURE
   \<and> pipeline_state
       (snd (do_change_state ((all_ok [])\<lparr>start_failure := Some Create_SignalingServer\<rparr>)
              NULL_TO_READY init)) = Idle
   \<and> http_server
       (snd (do_change_state ((all_ok [])\<lparr>start_failure := Some Create_SignalingServer\<rparr>)
              NULL_TO_READY init))
   \<and> calls
       (snd (do_change_state ((all_ok [])\<lparr>start_failure := Some Create_SignalingServer\<rparr>)
              NULL_TO_READY init)) = [Socket_bind, Http_thread_start]
   \<and> do_change_state (all_ok []) READY_TO_NULL
       (snd (do_change_state ((all_ok [])\<lparr>start_failure := Some Create_SignalingServer\<rparr>)
              NULL_TO_READY init))
      = (SUCCESS,
         snd (do_change_state ((all_ok [])\<lparr>start_failure := Some Create_SignalingServer\<rparr>)
              NULL_TO_READY init))
   \<and> fst (do_change_state ((all_ok [])\<lparr>start_failure := Some Bind_socket\<rparr>) NULL_TO_READY
       (snd (do_change_state ((all_ok [])\<lparr>start_failure := Some Create_SignalingServer\<rparr>)
              NULL_TO_READY init))) = FAILURE"
  by (simp add: do_change_state_def start_servers_def Let_def pipeline_state_def emits_def)

end
